theory Spec2Isabelle
  imports Main
begin

section \<open>The IP camera detection pipeline (ipcamera_detection_pipeline.py)\<close>

text \<open>
  The module wires a GStreamer pipeline. Everything the code asks of its surroundings
  (the location of the module file, the file system, the element factory, the result of
  linking two elements, the bus messages that reach the main loop) is an input of the
  model; everything the code itself decides (which registry, which path, which checks in
  which order, which exception with which message) is translated from the source.
\<close>

subsection \<open>Strings and paths\<close>

text \<open>\<^verbatim>\<open>sep.join(xs)\<close> of Python.\<close>

fun str_join :: "string \<Rightarrow> string list \<Rightarrow> string" where
  "str_join sep [] = []"
| "str_join sep [x] = x"
| "str_join sep (x # y # ys) = x @ sep @ str_join sep (y # ys)"

definition startswith_sep :: "string \<Rightarrow> bool" where
  "startswith_sep p = (case p of [] \<Rightarrow> False | c # _ \<Rightarrow> c = CHR ''/'')"

definition endswith_sep :: "string \<Rightarrow> bool" where
  "endswith_sep p = (case rev p of [] \<Rightarrow> False | c # _ \<Rightarrow> c = CHR ''/'')"

text \<open>
  \<^verbatim>\<open>posixpath.join(a, b)\<close>: an absolute second component replaces the first; otherwise the
  components are concatenated, with a separator unless the first is empty or ends in one.
\<close>

definition os_path_join :: "string \<Rightarrow> string \<Rightarrow> string" where
  "os_path_join a b =
     (if startswith_sep b then b
      else if a = [] \<or> endswith_sep a then a @ b
      else a @ ''/'' @ b)"

text \<open>
  \<^verbatim>\<open>posixpath.dirname(p)\<close>: the head is everything up to and including the last separator;
  trailing separators are stripped from it unless it consists of separators only.
\<close>

definition os_path_dirname :: "string \<Rightarrow> string" where
  "os_path_dirname p =
     (let head = rev (dropWhile (\<lambda>c. c \<noteq> CHR ''/'') (rev p))
      in if head \<noteq> [] \<and> \<not> list_all (\<lambda>c. c = CHR ''/'') head
         then rev (dropWhile (\<lambda>c. c = CHR ''/'') (rev head))
         else head)"

subsection \<open>The model registries\<close>

text \<open>
  Python dictionaries keep insertion order, and the order shows in the error message, so
  a registry is an association list; \<^verbatim>\<open>name in models\<close> and \<^verbatim>\<open>models[name]\<close> are
  \<^const>\<open>map_of\<close>, \<^verbatim>\<open>models.keys()\<close> is \<open>map fst\<close>.
\<close>

definition HAILO8_MODELS :: "(string \<times> string) list" where
  "HAILO8_MODELS =
     [(''yolov5m'', ''resources/yolov5m_wo_spp.hef''),
      (''yolov8s'', ''resources/yolov8s.hef''),
      (''yolov8m'', ''resources/yolov8m.hef''),
      (''yolov6n'', ''resources/yolov6n.hef'')]"

definition HAILO8L_MODELS :: "(string \<times> string) list" where
  "HAILO8L_MODELS =
     [(''yolov8s'', ''resources/yolov8s_h8l.hef''),
      (''yolov6n'', ''resources/yolov6n.hef''),
      (''yolox_s'', ''resources/yolox_s_leaky_h8l_mz.hef'')]"

definition select_models :: "bool \<Rightarrow> (string \<times> string) list" where
  "select_models is_hailo8l = (if is_hailo8l then HAILO8L_MODELS else HAILO8_MODELS)"

subsection \<open>Exceptions\<close>

text \<open>
  The exception classes the code raises or can run into, each with its message.
  The specification's \<open>ConfigurationError\<close> is the \<open>ValueError\<close> of the constructor; its
  \<open>ResourceNotFoundError\<close>, \<open>StageCreationError\<close>, \<open>LinkError\<close> and
  \<open>StateTransitionError\<close> are all \<open>RuntimeError\<close> in the code, told apart by message.
  \<open>AttributeError\<close> is what Python raises for a method call on \<open>None\<close>;
  \<open>OtherException\<close> stands for any other exception that is an \<^verbatim>\<open>Exception\<close>, coming out
  of the framework; \<open>BaseException\<close> for one that is not, such as \<^verbatim>\<open>KeyboardInterrupt\<close>
  or \<^verbatim>\<open>SystemExit\<close>, which an \<^verbatim>\<open>except Exception\<close> clause lets pass.
\<close>

datatype error =
    ValueError string
  | RuntimeError string
  | AttributeError string
  | OtherException string
  | BaseException string

fun str_of_error :: "error \<Rightarrow> string" where
  "str_of_error (ValueError m) = m"
| "str_of_error (RuntimeError m) = m"
| "str_of_error (AttributeError m) = m"
| "str_of_error (OtherException m) = m"
| "str_of_error (BaseException m) = m"

text \<open>\<^verbatim>\<open>isinstance(e, Exception)\<close>\<close>

fun is_Exception :: "error \<Rightarrow> bool" where
  "is_Exception (BaseException m) = False"
| "is_Exception e = True"

definition quoted :: "string \<Rightarrow> string" where
  "quoted s = CHR 0x27 # s @ [CHR 0x27]"

definition none_has_no_attribute :: "string \<Rightarrow> error" where
  "none_has_no_attribute m =
     AttributeError (quoted ''NoneType'' @ '' object has no attribute '' @ quoted m)"

subsection \<open>Framework objects\<close>

datatype pval = PInt int | PStr string | PBool bool | PCaps string

record element =
  factory :: string
  ename :: string
  props :: "string \<rightharpoonup> pval"

datatype gst_state = GstNull | GstReady | GstPaused | GstPlaying

datatype state_change_return = FAILURE | SUCCESS | ASYNC | NO_PREROLL

text \<open>
  \<^verbatim>\<open>a.link(b)\<close> of the framework returns a boolean; the code ignores it and only catches
  exceptions. All three outcomes are inputs of the model.
\<close>

datatype link_outcome = Linked | NotLinked | LinkRaises string

text \<open>The attributes of the application object that hold an element (or \<open>None\<close>).\<close>

datatype attr =
    Src | Jpegdec | Videoconvert | Videoscale | Capsfilter
  | Queue1 | Queue2 | Hailonet | Hailofilter | Sink

datatype handler = OnError | OnEos

text \<open>
  The surroundings of the constructor: the absolute path of the module file
  (\<^verbatim>\<open>os.path.abspath(__file__)\<close>), \<^verbatim>\<open>os.path.exists\<close>, whether
  \<^verbatim>\<open>Gst.ElementFactory.make(factory, name)\<close> yields an element, and the outcome of linking
  two elements (given by their instance names).
\<close>

record env =
  abspath_file :: string
  path_exists :: "string \<Rightarrow> bool"
  factory_make :: "string \<Rightarrow> string \<Rightarrow> bool"
  element_link :: "string \<Rightarrow> string \<Rightarrow> link_outcome"

text \<open>Process-wide state: the calls of \<^verbatim>\<open>Gst.init\<close> so far and the lines printed.\<close>

record world =
  gst_init_calls :: nat
  console :: "string list"

text \<open>
  The application object. The pipeline is its state, the instance names of the elements
  added to it (in order) and the links made inside it; \<open>loop\<close> is \<open>None\<close> while the
  attribute does not exist and \<open>Some r\<close> for a main loop whose \<^verbatim>\<open>is_running()\<close> is \<open>r\<close>.
\<close>

record ('cb, 'ud) app =
  callback_function :: 'cb
  user_data :: 'ud
  hef_path :: string
  pipeline_state :: gst_state
  pipeline_children :: "string list"
  pipeline_links :: "(string \<times> string) list"
  elems :: "attr \<Rightarrow> element option"
  caps :: "string option"
  probes :: "(string \<times> string \<times> 'cb \<times> 'ud) list"
  bus_signal_watch :: bool
  bus_handlers :: "(string \<times> handler) list"
  loop :: "bool option"

subsection \<open>Sequencing statements that may raise\<close>

fun seq :: "('s \<Rightarrow> error + 's) list \<Rightarrow> 's \<Rightarrow> error + 's" where
  "seq [] s = Inr s"
| "seq (f # fs) s = (case f s of Inl e \<Rightarrow> Inl e | Inr s' \<Rightarrow> seq fs s')"

subsection \<open>Element creation and configuration\<close>

definition ElementFactory_make :: "env \<Rightarrow> string \<Rightarrow> string \<Rightarrow> element option" where
  "ElementFactory_make ev f n =
     (if factory_make ev f n
      then Some \<lparr>factory = f, ename = n, props = Map.empty\<rparr>
      else None)"

text \<open>\<^verbatim>\<open>self.x = ...\<close>\<close>

definition assign :: "attr \<Rightarrow> element option \<Rightarrow> ('cb, 'ud) app \<Rightarrow> error + ('cb, 'ud) app" where
  "assign x eo a = Inr (a\<lparr>elems := (elems a)(x := eo)\<rparr>)"

text \<open>\<^verbatim>\<open>self.x.set_property(k, v)\<close>: an \<open>AttributeError\<close> when \<^verbatim>\<open>self.x\<close> is \<open>None\<close>.\<close>

definition set_property ::
  "attr \<Rightarrow> string \<Rightarrow> pval \<Rightarrow> ('cb, 'ud) app \<Rightarrow> error + ('cb, 'ud) app" where
  "set_property x k v a =
     (case elems a x of
        None \<Rightarrow> Inl (none_has_no_attribute ''set_property'')
      | Some e \<Rightarrow> Inr (a\<lparr>elems := (elems a)(x := Some (e\<lparr>props := (props e)(k \<mapsto> v)\<rparr>))\<rparr>))"

text \<open>\<^verbatim>\<open>if not self.x: raise RuntimeError(msg)\<close>\<close>

definition require :: "attr \<Rightarrow> string \<Rightarrow> ('cb, 'ud) app \<Rightarrow> error + ('cb, 'ud) app" where
  "require x msg a = (case elems a x of None \<Rightarrow> Inl (RuntimeError msg) | Some _ \<Rightarrow> Inr a)"

text \<open>The loop \<^verbatim>\<open>for queue in [self.queue1, self.queue2]\<close>.\<close>

fun configure_queues :: "attr list \<Rightarrow> ('cb, 'ud) app \<Rightarrow> error + ('cb, 'ud) app" where
  "configure_queues [] a = Inr a"
| "configure_queues (q # qs) a =
     (case seq [set_property q ''max-size-buffers'' (PInt 10),
                set_property q ''max-size-time'' (PInt 0),
                set_property q ''max-size-bytes'' (PInt 0)] a of
        Inl e \<Rightarrow> Inl e
      | Inr a' \<Rightarrow> configure_queues qs a')"

text \<open>
  \<^verbatim>\<open>verify_elements\<close>: the loop over the ten attributes. A missing element is formatted
  into the message as it is, that is as \<^verbatim>\<open>None\<close>; an element that is there is added to the
  pipeline.
\<close>

definition verify_list :: "attr list" where
  "verify_list =
     [Src, Jpegdec, Videoconvert, Videoscale, Capsfilter, Queue1, Queue2,
      Hailonet, Hailofilter, Sink]"

fun verify_loop :: "attr list \<Rightarrow> ('cb, 'ud) app \<Rightarrow> error + ('cb, 'ud) app" where
  "verify_loop [] a = Inr a"
| "verify_loop (x # xs) a =
     (case elems a x of
        None \<Rightarrow> Inl (RuntimeError (''Could not create '' @ ''None''))
      | Some e \<Rightarrow> verify_loop xs (a\<lparr>pipeline_children := pipeline_children a @ [ename e]\<rparr>))"

definition verify_elements :: "('cb, 'ud) app \<Rightarrow> error + ('cb, 'ud) app" where
  "verify_elements a = verify_loop verify_list a"

text \<open>
  One statement \<^verbatim>\<open>self.x.link(self.y)\<close> inside the \<^verbatim>\<open>try\<close> block: any exception becomes
  the \<open>RuntimeError\<close> of the handler; a link that the framework refuses (the call returns
  false) goes unnoticed.
\<close>

definition link_failed :: "string \<Rightarrow> error" where
  "link_failed m = RuntimeError (''Failed to link elements: '' @ m)"

definition link :: "env \<Rightarrow> attr \<Rightarrow> attr \<Rightarrow> ('cb, 'ud) app \<Rightarrow> error + ('cb, 'ud) app" where
  "link ev x y a =
     (case elems a x of
        None \<Rightarrow> Inl (link_failed (str_of_error (none_has_no_attribute ''link'')))
      | Some ex \<Rightarrow>
         (case elems a y of
            None \<Rightarrow> Inl (link_failed ''argument dest: Expected Gst.Element, but got NoneType'')
          | Some ey \<Rightarrow>
             (case element_link ev (ename ex) (ename ey) of
                Linked \<Rightarrow> Inr (a\<lparr>pipeline_links := pipeline_links a @ [(ename ex, ename ey)]\<rparr>)
              | NotLinked \<Rightarrow> Inr a
              | LinkRaises m \<Rightarrow> Inl (link_failed m))))"

definition add_and_link_elements :: "env \<Rightarrow> ('cb, 'ud) app \<Rightarrow> error + ('cb, 'ud) app" where
  "add_and_link_elements ev =
     seq [link ev Src Jpegdec,
          link ev Jpegdec Videoconvert,
          link ev Videoconvert Videoscale,
          link ev Videoscale Capsfilter,
          link ev Capsfilter Queue1,
          link ev Queue1 Hailonet,
          link ev Hailonet Hailofilter,
          link ev Hailofilter Queue2,
          link ev Queue2 Sink]"

definition camera_url :: string where
  "camera_url =
     ''http://14.160.87.118:82/cgi-bin/camera?resolution=640&quality=1&Language=0&1733285069''"

definition caps_string :: string where
  "caps_string = ''video/x-raw,format=RGB,width=640,height=480''"

definition hailonet_missing :: string where
  "hailonet_missing =
     ''Could not create hailonet element. Make sure Hailo GStreamer plugins are installed.''"

definition hailofilter_missing :: string where
  "hailofilter_missing =
     ''Could not create hailofilter element. Make sure Hailo GStreamer plugins are installed.''"

text \<open>
  \<^verbatim>\<open>create_elements\<close>, block by block as the source comments divide it. Nothing is checked
  when an element is made; the first use of a missing element is a method call on \<open>None\<close>.
  Only the two accelerator elements are tested right after they are made.
\<close>

definition source_elements :: "env \<Rightarrow> ('cb, 'ud) app \<Rightarrow> error + ('cb, 'ud) app" where
  "source_elements ev =
     seq [assign Src (ElementFactory_make ev ''souphttpsrc'' ''source''),
          set_property Src ''location'' (PStr camera_url),
          set_property Src ''timeout'' (PInt 5),
          set_property Src ''retries'' (PInt 3)]"

definition decoding_elements :: "env \<Rightarrow> ('cb, 'ud) app \<Rightarrow> error + ('cb, 'ud) app" where
  "decoding_elements ev =
     seq [assign Jpegdec (ElementFactory_make ev ''jpegdec'' ''jpeg-decoder''),
          assign Videoconvert (ElementFactory_make ev ''videoconvert'' ''converter''),
          assign Videoscale (ElementFactory_make ev ''videoscale'' ''scaler'')]"

definition queue_elements :: "env \<Rightarrow> ('cb, 'ud) app \<Rightarrow> error + ('cb, 'ud) app" where
  "queue_elements ev =
     seq [assign Queue1 (ElementFactory_make ev ''queue'' ''queue1''),
          assign Queue2 (ElementFactory_make ev ''queue'' ''queue2'')]"

definition video_format :: "env \<Rightarrow> ('cb, 'ud) app \<Rightarrow> error + ('cb, 'ud) app" where
  "video_format ev =
     seq [(\<lambda>a. Inr (a\<lparr>caps := Some caps_string\<rparr>)),
          assign Capsfilter (ElementFactory_make ev ''capsfilter'' ''capsfilter''),
          set_property Capsfilter ''caps'' (PCaps caps_string)]"

definition hailo_elements :: "env \<Rightarrow> ('cb, 'ud) app \<Rightarrow> error + ('cb, 'ud) app" where
  "hailo_elements ev =
     seq [assign Hailonet (ElementFactory_make ev ''hailonet'' ''hailonet''),
          require Hailonet hailonet_missing,
          assign Hailofilter (ElementFactory_make ev ''hailofilter'' ''hailofilter''),
          require Hailofilter hailofilter_missing]"

definition configure_hailo :: "('cb, 'ud) app \<Rightarrow> error + ('cb, 'ud) app" where
  "configure_hailo =
     seq [(\<lambda>a. set_property Hailonet ''hef-path'' (PStr (hef_path a)) a),
          set_property Hailonet ''batch-size'' (PInt 1)]"

definition display_element :: "env \<Rightarrow> ('cb, 'ud) app \<Rightarrow> error + ('cb, 'ud) app" where
  "display_element ev =
     seq [assign Sink (ElementFactory_make ev ''autovideosink'' ''sink''),
          set_property Sink ''sync'' (PBool False)]"

definition create_elements :: "env \<Rightarrow> ('cb, 'ud) app \<Rightarrow> error + ('cb, 'ud) app" where
  "create_elements ev =
     seq [source_elements ev,
          decoding_elements ev,
          queue_elements ev,
          configure_queues [Queue1, Queue2],
          video_format ev,
          hailo_elements ev,
          configure_hailo,
          display_element ev,
          verify_elements,
          add_and_link_elements ev]"

subsection \<open>The constructor\<close>

text \<open>
  \<^verbatim>\<open>pad = self.hailofilter.get_static_pad("src"); pad.add_probe(...)\<close>: the postprocess
  element has a static source pad, so only a missing element can make this raise.
\<close>

definition add_probe :: "('cb, 'ud) app \<Rightarrow> error + ('cb, 'ud) app" where
  "add_probe a =
     (case elems a Hailofilter of
        None \<Rightarrow> Inl (none_has_no_attribute ''get_static_pad'')
      | Some e \<Rightarrow>
          Inr (a\<lparr>probes := probes a @ [(ename e, ''src'', callback_function a, user_data a)]\<rparr>))"

definition connect_bus :: "('cb, 'ud) app \<Rightarrow> error + ('cb, 'ud) app" where
  "connect_bus a =
     Inr (a\<lparr>bus_signal_watch := True,
            bus_handlers := bus_handlers a @ [(''message::error'', OnError), (''message::eos'', OnEos)]\<rparr>)"

text \<open>The object right after \<^verbatim>\<open>self.pipeline = Gst.Pipeline()\<close>: an empty pipeline in the null state.\<close>

definition new_app :: "'cb \<Rightarrow> 'ud \<Rightarrow> string \<Rightarrow> ('cb, 'ud) app" where
  "new_app cb ud hef =
     \<lparr>callback_function = cb, user_data = ud, hef_path = hef,
      pipeline_state = GstNull, pipeline_children = [], pipeline_links = [],
      elems = (\<lambda>_. None), caps = None, probes = [],
      bus_signal_watch = False, bus_handlers = [], loop = None\<rparr>"

definition resources_dir :: "env \<Rightarrow> string" where
  "resources_dir ev =
     (let current_dir = os_path_dirname (abspath_file ev)
      in os_path_join (os_path_dirname current_dir) ''resources'')"

definition model_not_found :: "string \<Rightarrow> (string \<times> string) list \<Rightarrow> error" where
  "model_not_found model_name models =
     (let available_models = str_join '', '' (map fst models)
      in ValueError (''Model '' @ model_name @ '' not found. Available models: '' @ available_models))"

definition hef_not_found :: "string \<Rightarrow> error" where
  "hef_not_found p = RuntimeError (''HEF file not found at '' @ p)"

text \<open>
  \<^verbatim>\<open>__init__\<close>. The result is the process-wide state after the call together with either
  the exception raised or the constructed object.
\<close>

definition init ::
  "env \<Rightarrow> world \<Rightarrow> 'cb \<Rightarrow> 'ud \<Rightarrow> string \<Rightarrow> bool \<Rightarrow> world \<times> (error + ('cb, 'ud) app)" where
  "init ev w cb ud model_name is_hailo8l =
     (let models = select_models is_hailo8l
      in case map_of models model_name of
           None \<Rightarrow> (w, Inl (model_not_found model_name models))
         | Some rel \<Rightarrow>
             (let hef = os_path_join (resources_dir ev) rel
              in if \<not> path_exists ev hef then (w, Inl (hef_not_found hef))
                 else (w\<lparr>gst_init_calls := gst_init_calls w + 1\<rparr>,
                       seq [create_elements ev, add_probe, connect_bus] (new_app cb ud hef))))"

subsection \<open>Cleanup, the bus handlers and the run loop\<close>

text \<open>
  The methods of a constructed object act on the process-wide state and the object; they
  return the exception raised, if any, and the state they leave behind.
\<close>

type_synonym ('cb, 'ud) state = "world \<times> ('cb, 'ud) app"

fun seq_st :: "('s \<Rightarrow> error option \<times> 's) list \<Rightarrow> 's \<Rightarrow> error option \<times> 's" where
  "seq_st [] s = (None, s)"
| "seq_st (f # fs) s = (case f s of (Some e, s') \<Rightarrow> (Some e, s') | (None, s') \<Rightarrow> seq_st fs s')"

definition print_line :: "string \<Rightarrow> ('cb, 'ud) state \<Rightarrow> error option \<times> ('cb, 'ud) state" where
  "print_line l s = (None, ((fst s)\<lparr>console := console (fst s) @ [l]\<rparr>, snd s))"

text \<open>\<^verbatim>\<open>self.pipeline.set_state(Gst.State.NULL)\<close>, its return value unused.\<close>

definition set_state_null :: "('cb, 'ud) state \<Rightarrow> error option \<times> ('cb, 'ud) state" where
  "set_state_null s = (None, (fst s, (snd s)\<lparr>pipeline_state := GstNull\<rparr>))"

text \<open>\<^verbatim>\<open>self.loop.quit()\<close>: an \<open>AttributeError\<close> while the object has no attribute \<open>loop\<close>.\<close>

definition loop_quit :: "('cb, 'ud) state \<Rightarrow> error option \<times> ('cb, 'ud) state" where
  "loop_quit s =
     (case loop (snd s) of
        None \<Rightarrow>
          (Some (AttributeError (quoted ''GStreamerIPCameraApp'' @ '' object has no attribute ''
                                  @ quoted ''loop'')), s)
      | Some _ \<Rightarrow> (None, (fst s, (snd s)\<lparr>loop := Some False\<rparr>)))"

text \<open>\<^verbatim>\<open>if hasattr(self, 'loop') and self.loop.is_running(): self.loop.quit()\<close>\<close>

definition quit_if_running :: "('cb, 'ud) state \<Rightarrow> error option \<times> ('cb, 'ud) state" where
  "quit_if_running s =
     (case loop (snd s) of
        None \<Rightarrow> (None, s)
      | Some r \<Rightarrow> if r then loop_quit s else (None, s))"

definition cleaning_up :: string where
  "cleaning_up = ''Cleaning up pipeline...''"

definition cleanup :: "('cb, 'ud) state \<Rightarrow> error option \<times> ('cb, 'ud) state" where
  "cleanup = seq_st [print_line cleaning_up, set_state_null, quit_if_running]"

definition on_error :: "string \<Rightarrow> string \<Rightarrow> ('cb, 'ud) state \<Rightarrow> error option \<times> ('cb, 'ud) state" where
  "on_error err_message debug =
     seq_st [print_line (''Pipeline error: '' @ err_message),
             print_line (''Debug info: '' @ debug),
             cleanup,
             loop_quit]"

definition on_eos :: "('cb, 'ud) state \<Rightarrow> error option \<times> ('cb, 'ud) state" where
  "on_eos = seq_st [print_line ''End of stream reached'', cleanup, loop_quit]"

text \<open>
  What the main loop delivers while \<^verbatim>\<open>self.loop.run()\<close> blocks: an error message on the
  bus (with the message and the debug string of \<^verbatim>\<open>parse_error\<close>), end of stream, a call
  of \<^verbatim>\<open>self.loop.quit()\<close> made from outside the object, a call of the public method
  \<^verbatim>\<open>cleanup()\<close> made from outside the object (from the probe callback, a timer or a signal
  handler of the caller), an exception coming out of \<^verbatim>\<open>run()\<close> itself (with the value
  \<^verbatim>\<open>is_running()\<close> has afterwards), or anything else that leaves the loop running.
\<close>

datatype event =
    BusError string string
  | BusEos
  | QuitRequest
  | CleanupCall
  | LoopRaises error bool
  | Idle

text \<open>
  The loop proper. A handler runs inside the loop; an exception it raises is reported by
  the binding and does not leave the loop. The loop returns once it is no longer running.
  When the events are used up and nothing has stopped the loop, \<^verbatim>\<open>run()\<close> blocks for ever:
  the result is \<open>None\<close>.
\<close>

fun dispatch ::
  "event list \<Rightarrow> ('cb, 'ud) state \<Rightarrow> (error option \<times> ('cb, 'ud) state) option" where
  "dispatch [] s = None"
| "dispatch (Idle # es) s = dispatch es s"
| "dispatch (QuitRequest # es) s = Some (loop_quit s)"
| "dispatch (CleanupCall # es) s =
     (let s' = snd (cleanup s)
      in if loop (snd s') = Some True then dispatch es s' else Some (None, s'))"
| "dispatch (LoopRaises e r # es) s =
     Some (Some e, (fst s, (snd s)\<lparr>loop := Some r\<rparr>))"
| "dispatch (BusError m d # es) s =
     (let s' = snd (on_error m d s)
      in if loop (snd s') = Some True then dispatch es s' else Some (None, s'))"
| "dispatch (BusEos # es) s =
     (let s' = snd (on_eos s)
      in if loop (snd s') = Some True then dispatch es s' else Some (None, s'))"

text \<open>\<^verbatim>\<open>self.loop = GLib.MainLoop(); self.loop.run()\<close>\<close>

definition loop_run ::
  "event list \<Rightarrow> ('cb, 'ud) state \<Rightarrow> (error option \<times> ('cb, 'ud) state) option" where
  "loop_run es s = dispatch es (fst s, (snd s)\<lparr>loop := Some True\<rparr>)"

definition cannot_play :: error where
  "cannot_play = RuntimeError ''Unable to set the pipeline to the playing state''"

text \<open>
  \<^verbatim>\<open>run\<close>. The first argument is what \<^verbatim>\<open>set_state(PLAYING)\<close> returns. The clause
  \<^verbatim>\<open>except Exception\<close> prints and raises again, and lets pass what is not an
  \<^verbatim>\<open>Exception\<close>; the \<^verbatim>\<open>finally\<close> clause calls \<open>cleanup\<close> on every way out of the \<^verbatim>\<open>try\<close>
  block, and an exception of \<open>cleanup\<close> would replace the one in flight.
\<close>

definition run ::
  "state_change_return \<Rightarrow> event list \<Rightarrow> ('cb, 'ud) state
     \<Rightarrow> (error option \<times> ('cb, 'ud) state) option" where
  "run ret es s =
     (if ret = FAILURE then Some (Some cannot_play, s)
      else
        (case loop_run es (fst s, (snd s)\<lparr>pipeline_state := GstPlaying, loop := Some False\<rparr>) of
           None \<Rightarrow> None
         | Some (None, s1) \<Rightarrow> Some (cleanup s1)
         | Some (Some e, s1) \<Rightarrow>
             (case seq_st ((if is_Exception e
                            then [print_line (''Pipeline error: '' @ str_of_error e)]
                            else []) @ [cleanup]) s1 of
                (None, s2) \<Rightarrow> Some (Some e, s2)
              | (Some e', s2) \<Rightarrow> Some (Some e', s2))))"

text \<open>How often \<open>cleanup\<close> has run so far: each call prints its line first.\<close>

definition cleanups :: "world \<Rightarrow> nat" where
  "cleanups w = count_list (console w) cleaning_up"

text \<open>The event that ends the loop: the first one that is not \<open>Idle\<close>.\<close>

fun exit_event :: "event list \<Rightarrow> event option" where
  "exit_event [] = None"
| "exit_event (Idle # es) = exit_event es"
| "exit_event (e # es) = Some e"

fun is_bus_event :: "event \<Rightarrow> bool" where
  "is_bus_event (BusError m d) = True"
| "is_bus_event BusEos = True"
| "is_bus_event e = False"

text \<open>The events whose handling calls \<open>cleanup\<close> before the loop returns.\<close>

fun calls_cleanup :: "event \<Rightarrow> bool" where
  "calls_cleanup (BusError m d) = True"
| "calls_cleanup BusEos = True"
| "calls_cleanup CleanupCall = True"
| "calls_cleanup e = False"

subsection \<open>Reading an assembled pipeline\<close>

text \<open>
  The ten stages along the chain that \<^verbatim>\<open>add_and_link_elements\<close> builds, each with the
  factory and the instance name \<^verbatim>\<open>create_elements\<close> gives it, and the nine links between
  neighbours.
\<close>

definition chain :: "attr list" where
  "chain =
     [Src, Jpegdec, Videoconvert, Videoscale, Capsfilter, Queue1, Hailonet, Hailofilter,
      Queue2, Sink]"

definition stage_factories :: "(string \<times> string) list" where
  "stage_factories =
     [(''souphttpsrc'', ''source''), (''jpegdec'', ''jpeg-decoder''),
      (''videoconvert'', ''converter''), (''videoscale'', ''scaler''),
      (''capsfilter'', ''capsfilter''), (''queue'', ''queue1''),
      (''hailonet'', ''hailonet''), (''hailofilter'', ''hailofilter''),
      (''queue'', ''queue2''), (''autovideosink'', ''sink'')]"

definition chain_links :: "(string \<times> string) list" where
  "chain_links = zip (map snd stage_factories) (tl (map snd stage_factories))"

definition all_made :: "env \<Rightarrow> bool" where
  "all_made ev = list_all (\<lambda>(f, n). factory_make ev f n) stage_factories"

definition all_linked :: "env \<Rightarrow> bool" where
  "all_linked ev = list_all (\<lambda>(x, y). element_link ev x y = Linked) chain_links"

definition stage_of :: "('cb, 'ud) app \<Rightarrow> attr \<Rightarrow> (string \<times> string) option" where
  "stage_of a x = (case elems a x of None \<Rightarrow> None | Some e \<Rightarrow> Some (factory e, ename e))"

text \<open>What the loop over the two queues sets on a freshly made queue.\<close>

definition queue_props :: "string \<rightharpoonup> pval" where
  "queue_props =
     [''max-size-buffers'' \<mapsto> PInt 10, ''max-size-time'' \<mapsto> PInt 0, ''max-size-bytes'' \<mapsto> PInt 0]"

definition property_of :: "('cb, 'ud) app \<Rightarrow> attr \<Rightarrow> string \<Rightarrow> pval option" where
  "property_of a x k = (case elems a x of None \<Rightarrow> None | Some e \<Rightarrow> props e k)"

text \<open>The model file the object records and the two settings of the inference element.\<close>

definition hailo_config :: "('cb, 'ud) app \<Rightarrow> string \<times> pval option \<times> pval option" where
  "hailo_config a = (hef_path a, property_of a Hailonet ''hef-path'', property_of a Hailonet ''batch-size'')"

subsection \<open>A concrete installation\<close>

text \<open>
  An installation under \<^verbatim>\<open>/home/pi/hailo-rpi5-examples-main\<close> in which every file exists,
  every factory is installed and every link is accepted; and variants of it.
\<close>

definition pi_env :: env where
  "pi_env =
     \<lparr>abspath_file =
        ''/home/pi/hailo-rpi5-examples-main/basic_pipelines/ipcamera_detection_pipeline.py'',
      path_exists = (\<lambda>_. True),
      factory_make = (\<lambda>_ _. True),
      element_link = (\<lambda>_ _. Linked)\<rparr>"

text \<open>The same installation with one stage that the factory cannot make.\<close>

definition without_stage :: "string \<times> string \<Rightarrow> env \<Rightarrow> env" where
  "without_stage fn ev = ev\<lparr>factory_make := (\<lambda>f n. (f, n) \<noteq> fn \<and> factory_make ev f n)\<rparr>"

text \<open>The same installation with one link that the framework refuses.\<close>

definition refusing_link :: "string \<times> string \<Rightarrow> env \<Rightarrow> env" where
  "refusing_link xy ev =
     ev\<lparr>element_link := (\<lambda>x y. if (x, y) = xy then NotLinked else element_link ev x y)\<rparr>"

definition fresh_world :: world where
  "fresh_world = \<lparr>gst_init_calls = 0, console = []\<rparr>"

text \<open>A process that has just constructed the application for \<open>yolov8s\<close> on the standard device.\<close>

definition pi_session :: "(unit, unit) state option" where
  "pi_session =
     (case init pi_env fresh_world () () ''yolov8s'' False of
        (w, Inr a) \<Rightarrow> Some (w, a)
      | (w, Inl e) \<Rightarrow> None)"

text \<open>The outcome of constructing the application, the process-wide state left aside.\<close>

definition init_outcome :: "env \<Rightarrow> string \<Rightarrow> bool \<Rightarrow> error + (unit, unit) app" where
  "init_outcome ev model_name is_hailo8l = snd (init ev fresh_world () () model_name is_hailo8l)"

text \<open>Constructing for \<open>yolov5m\<close> on the standard device when one stage cannot be made.\<close>

definition missing_stage_outcome :: "string \<times> string \<Rightarrow> error + (unit, unit) app" where
  "missing_stage_outcome fn = init_outcome (without_stage fn pi_env) ''yolov5m'' False"

section \<open>Properties of the constructor\<close>

lemma registry_names:
  "str_join '', '' (map fst (select_models is_hailo8l)) =
     (if is_hailo8l then ''yolov8s, yolov6n, yolox_s''
      else ''yolov5m, yolov8s, yolov8m, yolov6n'')"
  by (simp add: select_models_def HAILO8_MODELS_def HAILO8L_MODELS_def)

lemma pi_resources_dir:
  "abspath_file ev = abspath_file pi_env \<Longrightarrow>
   resources_dir ev = ''/home/pi/hailo-rpi5-examples-main/resources''"
  by (simp add: resources_dir_def pi_env_def os_path_dirname_def os_path_join_def
      startswith_sep_def endswith_sep_def)

lemma pi_hef:
  "abspath_file ev = abspath_file pi_env \<Longrightarrow>
   os_path_join (resources_dir ev) ''resources/yolov5m_wo_spp.hef''
     = ''/home/pi/hailo-rpi5-examples-main/resources/resources/yolov5m_wo_spp.hef''"
  by (simp add: pi_resources_dir os_path_join_def startswith_sep_def endswith_sep_def)

lemmas step_defs = assign_def set_property_def require_def ElementFactory_make_def

lemmas block_defs = source_elements_def decoding_elements_def queue_elements_def
  video_format_def hailo_elements_def configure_hailo_def display_element_def
  verify_elements_def verify_list_def add_and_link_elements_def link_def

lemma seq_Cons_Inr:
  "seq (f # fs) s = Inr s' \<longleftrightarrow> (\<exists>s1. f s = Inr s1 \<and> seq fs s1 = Inr s')"
  by (cases "f s") simp_all

subsection \<open>The assembly when the framework cooperates\<close>

lemma all_made_iff:
  "all_made ev \<longleftrightarrow>
     factory_make ev ''souphttpsrc'' ''source'' \<and> factory_make ev ''jpegdec'' ''jpeg-decoder'' \<and>
     factory_make ev ''videoconvert'' ''converter'' \<and> factory_make ev ''videoscale'' ''scaler'' \<and>
     factory_make ev ''capsfilter'' ''capsfilter'' \<and> factory_make ev ''queue'' ''queue1'' \<and>
     factory_make ev ''hailonet'' ''hailonet'' \<and> factory_make ev ''hailofilter'' ''hailofilter'' \<and>
     factory_make ev ''queue'' ''queue2'' \<and> factory_make ev ''autovideosink'' ''sink''"
  by (simp add: all_made_def stage_factories_def)

lemma chain_links_eq:
  "chain_links =
     [(''source'', ''jpeg-decoder''), (''jpeg-decoder'', ''converter''),
      (''converter'', ''scaler''), (''scaler'', ''capsfilter''),
      (''capsfilter'', ''queue1''), (''queue1'', ''hailonet''),
      (''hailonet'', ''hailofilter''), (''hailofilter'', ''queue2''),
      (''queue2'', ''sink'')]"
  by (simp add: chain_links_def stage_factories_def)

lemma all_linked_iff:
  "all_linked ev \<longleftrightarrow>
     element_link ev ''source'' ''jpeg-decoder'' = Linked \<and>
     element_link ev ''jpeg-decoder'' ''converter'' = Linked \<and>
     element_link ev ''converter'' ''scaler'' = Linked \<and>
     element_link ev ''scaler'' ''capsfilter'' = Linked \<and>
     element_link ev ''capsfilter'' ''queue1'' = Linked \<and>
     element_link ev ''queue1'' ''hailonet'' = Linked \<and>
     element_link ev ''hailonet'' ''hailofilter'' = Linked \<and>
     element_link ev ''hailofilter'' ''queue2'' = Linked \<and>
     element_link ev ''queue2'' ''sink'' = Linked"
  by (simp add: all_linked_def chain_links_eq)

lemma create_elements_assembles:
  assumes "all_made ev" and "all_linked ev"
  shows "\<exists>a'. create_elements ev (new_app cb ud hef) = Inr a'
     \<and> pipeline_state a' = GstNull \<and> loop a' = None \<and> hef_path a' = hef
     \<and> pipeline_children a' =
         [''source'', ''jpeg-decoder'', ''converter'', ''scaler'', ''capsfilter'',
          ''queue1'', ''queue2'', ''hailonet'', ''hailofilter'', ''sink'']
     \<and> map (stage_of a') chain = map Some stage_factories
     \<and> pipeline_links a' = chain_links
     \<and> elems a' Hailofilter \<noteq> None
     \<and> hailo_config a' = (hef, Some (PStr hef), Some (PInt 1))"
  using assms unfolding all_made_iff all_linked_iff chain_links_eq
  by (simp add: create_elements_def block_defs step_defs new_app_def stage_of_def chain_def
      stage_factories_def hailo_config_def property_of_def)

lemma init_assembles:
  assumes "map_of (select_models is_hailo8l) model_name = Some rel"
    and "path_exists ev (os_path_join (resources_dir ev) rel)"
    and "all_made ev" and "all_linked ev"
  shows "\<exists>a. init ev w cb ud model_name is_hailo8l =
               (w\<lparr>gst_init_calls := gst_init_calls w + 1\<rparr>, Inr a)
     \<and> pipeline_state a = GstNull \<and> loop a = None
     \<and> pipeline_children a =
         [''source'', ''jpeg-decoder'', ''converter'', ''scaler'', ''capsfilter'',
          ''queue1'', ''queue2'', ''hailonet'', ''hailofilter'', ''sink'']
     \<and> map (stage_of a) chain = map Some stage_factories
     \<and> pipeline_links a = chain_links
     \<and> hailo_config a = (os_path_join (resources_dir ev) rel,
                         Some (PStr (os_path_join (resources_dir ev) rel)), Some (PInt 1))"
proof -
  let ?hef = "os_path_join (resources_dir ev) rel"
  from create_elements_assembles [OF assms(3,4), of cb ud ?hef]
  obtain a' where a': "create_elements ev (new_app cb ud ?hef) = Inr a'"
    "pipeline_state a' = GstNull" "loop a' = None"
    "pipeline_children a' =
         [''source'', ''jpeg-decoder'', ''converter'', ''scaler'', ''capsfilter'',
          ''queue1'', ''queue2'', ''hailonet'', ''hailofilter'', ''sink'']"
    "map (stage_of a') chain = map Some stage_factories"
    "pipeline_links a' = chain_links" "elems a' Hailofilter \<noteq> None"
    "hailo_config a' = (?hef, Some (PStr ?hef), Some (PInt 1))"
    by blast
  from a'(7) obtain e where e: "elems a' Hailofilter = Some e" by auto
  show ?thesis
    using assms(1,2) a'(1-6) a'(8) e
    by (simp add: init_def add_probe_def connect_bus_def stage_of_def chain_def
        hailo_config_def property_of_def)
qed

lemma pi_env_good: "all_made pi_env" "all_linked pi_env" "path_exists pi_env p"
  by (simp_all add: pi_env_def all_made_iff all_linked_iff)

lemma yolov8s_registered:
  "map_of (select_models False) ''yolov8s'' = Some ''resources/yolov8s.hef''"
  by (simp add: select_models_def HAILO8_MODELS_def)

lemma pi_session_assembled: "\<exists>a. pi_session = Some (fresh_world\<lparr>gst_init_calls := 1\<rparr>, a)"
proof -
  from init_assembles [OF yolov8s_registered pi_env_good(3) pi_env_good(1,2),
      of fresh_world "()" "()"]
  show ?thesis by (auto simp: pi_session_def fresh_world_def)
qed

lemma init_outcome_yolov5m:
  "path_exists ev ''/home/pi/hailo-rpi5-examples-main/resources/resources/yolov5m_wo_spp.hef'' \<Longrightarrow>
   abspath_file ev = abspath_file pi_env \<Longrightarrow>
   init_outcome ev ''yolov5m'' False =
     seq [create_elements ev, add_probe, connect_bus]
       (new_app () () ''/home/pi/hailo-rpi5-examples-main/resources/resources/yolov5m_wo_spp.hef'')"
  by (simp add: init_outcome_def init_def select_models_def HAILO8_MODELS_def pi_hef)

subsection \<open>What a successful assembly implies\<close>

lemma verify_loop_elems: "verify_loop xs a = Inr a' \<Longrightarrow> elems a' = elems a"
  by (induction xs arbitrary: a) (auto split: option.splits)

lemma link_elems: "link ev x y a = Inr a' \<Longrightarrow> elems a' = elems a"
  by (auto simp: link_def split: option.splits link_outcome.splits)

lemma add_and_link_elems: "add_and_link_elements ev a = Inr a' \<Longrightarrow> elems a' = elems a"
  unfolding add_and_link_elements_def seq_Cons_Inr
  by (auto dest!: link_elems)

lemma queues_made:
  assumes "queue_elements ev a = Inr a1" and "configure_queues [Queue1, Queue2] a1 = Inr a2"
  shows "elems a2 Queue1 = Some \<lparr>factory = ''queue'', ename = ''queue1'', props = queue_props\<rparr>
       \<and> elems a2 Queue2 = Some \<lparr>factory = ''queue'', ename = ''queue2'', props = queue_props\<rparr>"
  using assms
  by (auto simp: queue_elements_def step_defs queue_props_def split: option.splits if_splits)

lemma video_format_queues:
  "video_format ev a = Inr a' \<Longrightarrow>
   elems a' Queue1 = elems a Queue1 \<and> elems a' Queue2 = elems a Queue2"
  by (auto simp: video_format_def step_defs split: option.splits if_splits)

lemma hailo_elements_queues:
  "hailo_elements ev a = Inr a' \<Longrightarrow>
   elems a' Queue1 = elems a Queue1 \<and> elems a' Queue2 = elems a Queue2"
  by (auto simp: hailo_elements_def step_defs split: option.splits if_splits)

lemma configure_hailo_queues:
  "configure_hailo a = Inr a' \<Longrightarrow>
   elems a' Queue1 = elems a Queue1 \<and> elems a' Queue2 = elems a Queue2"
  by (auto simp: configure_hailo_def step_defs split: option.splits if_splits)

lemma display_element_queues:
  "display_element ev a = Inr a' \<Longrightarrow>
   elems a' Queue1 = elems a Queue1 \<and> elems a' Queue2 = elems a Queue2"
  by (auto simp: display_element_def step_defs split: option.splits if_splits)

lemma create_elements_queues:
  assumes "create_elements ev a = Inr a'"
  shows "elems a' Queue1 = Some \<lparr>factory = ''queue'', ename = ''queue1'', props = queue_props\<rparr>
       \<and> elems a' Queue2 = Some \<lparr>factory = ''queue'', ename = ''queue2'', props = queue_props\<rparr>"
proof -
  from assms obtain a1 a2 a3 a4 a5 a6 a7 a8 a9 where
    "source_elements ev a = Inr a1" "decoding_elements ev a1 = Inr a2"
    and q: "queue_elements ev a2 = Inr a3" "configure_queues [Queue1, Queue2] a3 = Inr a4"
    and v: "video_format ev a4 = Inr a5" and h: "hailo_elements ev a5 = Inr a6"
    and c: "configure_hailo a6 = Inr a7" and d: "display_element ev a7 = Inr a8"
    and e: "verify_elements a8 = Inr a9" and l: "add_and_link_elements ev a9 = Inr a'"
    unfolding create_elements_def seq_Cons_Inr by auto
  from e have "elems a9 = elems a8"
    unfolding verify_elements_def by (rule verify_loop_elems)
  with add_and_link_elems [OF l] have "elems a' = elems a8" by simp
  with queues_made [OF q] video_format_queues [OF v] hailo_elements_queues [OF h]
    configure_hailo_queues [OF c] display_element_queues [OF d]
  show ?thesis by simp
qed

lemma init_elems:
  assumes "init ev w cb ud model_name is_hailo8l = (w', Inr a)"
  shows "\<exists>hef a1. create_elements ev (new_app cb ud hef) = Inr a1 \<and> elems a = elems a1"
  using assms
  by (auto simp: init_def Let_def add_probe_def connect_bus_def
      split: option.splits if_splits sum.splits) blast

subsection \<open>The claims about the constructor\<close>

text \<open>
  Claim C1. A model name that is not a key of the registry selected by the hardware flag
  makes the constructor raise the \<open>ValueError\<close> (the configuration error) whose message
  lists the keys of that registry, in the registry's order: \<open>yolov8s, yolov6n, yolox_s\<close>
  for the lite variant, \<open>yolov5m, yolov8s, yolov8m, yolov6n\<close> otherwise. The process-wide
  state is returned as it was.
\<close>

theorem init_unknown_model:
  assumes "model_name \<notin> set (map fst (select_models is_hailo8l))"
  shows "init ev w cb ud model_name is_hailo8l =
           (w, Inl (ValueError (''Model '' @ model_name @ '' not found. Available models: ''
                                 @ str_join '', '' (map fst (select_models is_hailo8l)))))
         \<and> str_join '', '' (map fst (select_models is_hailo8l)) =
             (if is_hailo8l then ''yolov8s, yolov6n, yolox_s''
              else ''yolov5m, yolov8s, yolov8m, yolov6n'')"
proof -
  from assms have "map_of (select_models is_hailo8l) model_name = None"
    by (simp add: map_of_eq_None_iff)
  then show ?thesis
    by (simp add: init_def model_not_found_def registry_names)
qed

theorem init_unknown_model_witness:
  "''yolov5m'' \<notin> set (map fst (select_models True))
   \<and> init pi_env fresh_world () () ''yolov5m'' True =
       (fresh_world,
        Inl (ValueError ''Model yolov5m not found. Available models: yolov8s, yolov6n, yolox_s''))"
proof -
  have h: "''yolov5m'' \<notin> set (map fst (select_models True))"
    by (simp add: select_models_def HAILO8L_MODELS_def)
  show ?thesis
    using h init_unknown_model [OF h, of pi_env fresh_world "()" "()"] by simp
qed

text \<open>
  Claim C2. A model name that is a key of the selected registry, with no file at the path
  it resolves to, makes the constructor raise the \<open>RuntimeError\<close> ``HEF file not found at
  ...'' (the resource-not-found error); no object, hence no pipeline, is returned.
\<close>

theorem init_missing_file:
  assumes "map_of (select_models is_hailo8l) model_name = Some rel"
    and "\<not> path_exists ev (os_path_join (resources_dir ev) rel)"
  shows "init ev w cb ud model_name is_hailo8l =
           (w, Inl (RuntimeError (''HEF file not found at ''
                                   @ os_path_join (resources_dir ev) rel)))"
  using assms by (simp add: init_def hef_not_found_def)

theorem init_missing_file_witness:
  "map_of (select_models False) ''yolov8s'' = Some ''resources/yolov8s.hef''
   \<and> \<not> path_exists (pi_env\<lparr>path_exists := (\<lambda>_. False)\<rparr>)
         (os_path_join (resources_dir (pi_env\<lparr>path_exists := (\<lambda>_. False)\<rparr>)) ''resources/yolov8s.hef'')
   \<and> init (pi_env\<lparr>path_exists := (\<lambda>_. False)\<rparr>) fresh_world () () ''yolov8s'' False =
       (fresh_world,
        Inl (RuntimeError
          ''HEF file not found at /home/pi/hailo-rpi5-examples-main/resources/resources/yolov8s.hef''))"
proof -
  let ?ev = "pi_env\<lparr>path_exists := (\<lambda>_. False)\<rparr>"
  have m: "map_of (select_models False) ''yolov8s'' = Some ''resources/yolov8s.hef''"
    by (simp add: select_models_def HAILO8_MODELS_def)
  have x: "\<not> path_exists ?ev (os_path_join (resources_dir ?ev) ''resources/yolov8s.hef'')"
    by simp
  have r: "resources_dir ?ev = ''/home/pi/hailo-rpi5-examples-main/resources''"
    by (rule pi_resources_dir) simp
  show ?thesis
    using m x init_missing_file [OF m x, of fresh_world "()" "()"]
    by (simp add: r os_path_join_def startswith_sep_def endswith_sep_def)
qed

text \<open>
  Claim C10. Both checks of the constructor come before \<^verbatim>\<open>Gst.init\<close> and before the
  pipeline and the elements are created: when the model name is unknown, or known with its
  file missing, the constructor raises with the process-wide state (the count of
  \<^verbatim>\<open>Gst.init\<close> calls included) exactly as it found it, and returns no object.
\<close>

theorem init_failure_atomic:
  assumes "model_name \<notin> set (map fst (select_models is_hailo8l))
           \<or> (\<exists>rel. map_of (select_models is_hailo8l) model_name = Some rel
                  \<and> \<not> path_exists ev (os_path_join (resources_dir ev) rel))"
  shows "\<exists>e. init ev w cb ud model_name is_hailo8l = (w, Inl e)"
  using assms
proof
  assume "model_name \<notin> set (map fst (select_models is_hailo8l))"
  then have "map_of (select_models is_hailo8l) model_name = None"
    by (simp add: map_of_eq_None_iff)
  then show ?thesis by (simp add: init_def)
next
  assume "\<exists>rel. map_of (select_models is_hailo8l) model_name = Some rel
                  \<and> \<not> path_exists ev (os_path_join (resources_dir ev) rel)"
  then show ?thesis by (auto simp: init_def)
qed

theorem init_failure_atomic_witness:
  "(\<exists>e. init pi_env \<lparr>gst_init_calls = 0, console = []\<rparr> () () ''yolov8m'' True
          = (\<lparr>gst_init_calls = 0, console = []\<rparr>, Inl e))
   \<and> (\<exists>e. init (pi_env\<lparr>path_exists := (\<lambda>_. False)\<rparr>) \<lparr>gst_init_calls = 0, console = []\<rparr>
            () () ''yolov8m'' False
          = (\<lparr>gst_init_calls = 0, console = []\<rparr>, Inl e))"
proof -
  let ?ev = "pi_env\<lparr>path_exists := (\<lambda>_. False)\<rparr>"
  have a: "''yolov8m'' \<notin> set (map fst (select_models True))
           \<or> (\<exists>rel. map_of (select_models True) ''yolov8m'' = Some rel
                  \<and> \<not> path_exists pi_env (os_path_join (resources_dir pi_env) rel))"
    by (simp add: select_models_def HAILO8L_MODELS_def)
  have b: "''yolov8m'' \<notin> set (map fst (select_models False))
           \<or> (\<exists>rel. map_of (select_models False) ''yolov8m'' = Some rel
                  \<and> \<not> path_exists ?ev (os_path_join (resources_dir ?ev) rel))"
    by (simp add: select_models_def HAILO8_MODELS_def)
  show ?thesis
    using init_failure_atomic [OF a, of "\<lparr>gst_init_calls = 0, console = []\<rparr>" "()" "()"]
      init_failure_atomic [OF b, of "\<lparr>gst_init_calls = 0, console = []\<rparr>" "()" "()"]
    by simp
qed

text \<open>
  Claim C3, as stated, fails: a registered model name and an existing model file do not
  make the constructor succeed. With the inference plugin missing the constructor raises;
  and when the framework refuses a link (the call returns false, which the code does not
  look at) the constructor succeeds with that link absent.
\<close>

theorem init_valid_model_not_assembled:
  "map_of (select_models False) ''yolov5m'' = Some ''resources/yolov5m_wo_spp.hef''
   \<and> path_exists (without_stage (''hailonet'', ''hailonet'') pi_env)
        (os_path_join (resources_dir (without_stage (''hailonet'', ''hailonet'') pi_env))
           ''resources/yolov5m_wo_spp.hef'')
   \<and> init_outcome (without_stage (''hailonet'', ''hailonet'') pi_env) ''yolov5m'' False
        = Inl (RuntimeError hailonet_missing)
   \<and> map_sum id pipeline_links
        (init_outcome (refusing_link (''source'', ''jpeg-decoder'') pi_env) ''yolov5m'' False)
        = Inr [(''jpeg-decoder'', ''converter''), (''converter'', ''scaler''),
               (''scaler'', ''capsfilter''), (''capsfilter'', ''queue1''),
               (''queue1'', ''hailonet''), (''hailonet'', ''hailofilter''),
               (''hailofilter'', ''queue2''), (''queue2'', ''sink'')]"
proof -
  have m: "map_of (select_models False) ''yolov5m'' = Some ''resources/yolov5m_wo_spp.hef''"
    by (simp add: select_models_def HAILO8_MODELS_def)
  have x: "path_exists (without_stage (''hailonet'', ''hailonet'') pi_env) p" for p
    by (simp add: without_stage_def pi_env_def)
  have h: "init_outcome (without_stage (''hailonet'', ''hailonet'') pi_env) ''yolov5m'' False
             = Inl (RuntimeError hailonet_missing)"
    by (subst init_outcome_yolov5m)
       (simp_all add: without_stage_def pi_env_def create_elements_def block_defs step_defs
          new_app_def)
  have l: "map_sum id pipeline_links
        (init_outcome (refusing_link (''source'', ''jpeg-decoder'') pi_env) ''yolov5m'' False)
        = Inr [(''jpeg-decoder'', ''converter''), (''converter'', ''scaler''),
               (''scaler'', ''capsfilter''), (''capsfilter'', ''queue1''),
               (''queue1'', ''hailonet''), (''hailonet'', ''hailofilter''),
               (''hailofilter'', ''queue2''), (''queue2'', ''sink'')]"
    by (subst init_outcome_yolov5m)
       (simp_all add: refusing_link_def pi_env_def create_elements_def block_defs step_defs
          new_app_def add_probe_def connect_bus_def)
  from m x h l show ?thesis by simp
qed

text \<open>
  Claim C3, amended. Given a registered model name, an existing model file and a
  framework that makes each of the ten stages and accepts each of the nine links, the
  constructor succeeds (after one call of \<^verbatim>\<open>Gst.init\<close>) and returns a pipeline in the null
  state that holds exactly the ten stages and the nine links of the chain
  source, JPEG decoder, converter, scaler, caps filter, first queue, inference,
  postprocess, second queue, sink.
\<close>

theorem init_assembles_chain:
  assumes "map_of (select_models is_hailo8l) model_name = Some rel"
    and "path_exists ev (os_path_join (resources_dir ev) rel)"
    and "all_made ev" and "all_linked ev"
  shows "\<exists>a. init ev w cb ud model_name is_hailo8l =
               (w\<lparr>gst_init_calls := gst_init_calls w + 1\<rparr>, Inr a)
     \<and> pipeline_state a = GstNull
     \<and> length (pipeline_children a) = 10
     \<and> set (pipeline_children a) = set (map snd stage_factories)
     \<and> map (stage_of a) chain = map Some stage_factories
     \<and> pipeline_links a =
         [(''source'', ''jpeg-decoder''), (''jpeg-decoder'', ''converter''),
          (''converter'', ''scaler''), (''scaler'', ''capsfilter''),
          (''capsfilter'', ''queue1''), (''queue1'', ''hailonet''),
          (''hailonet'', ''hailofilter''), (''hailofilter'', ''queue2''),
          (''queue2'', ''sink'')]"
proof -
  from init_assembles [OF assms, of w cb ud] obtain a where
    "init ev w cb ud model_name is_hailo8l = (w\<lparr>gst_init_calls := gst_init_calls w + 1\<rparr>, Inr a)"
    "pipeline_state a = GstNull"
    "pipeline_children a =
         [''source'', ''jpeg-decoder'', ''converter'', ''scaler'', ''capsfilter'',
          ''queue1'', ''queue2'', ''hailonet'', ''hailofilter'', ''sink'']"
    "map (stage_of a) chain = map Some stage_factories"
    "pipeline_links a = chain_links"
    by blast
  moreover have "set [''source'', ''jpeg-decoder'', ''converter'', ''scaler'', ''capsfilter'',
          ''queue1'', ''queue2'', ''hailonet'', ''hailofilter'', ''sink'']
        = set (map snd stage_factories)"
    by (auto simp: stage_factories_def)
  ultimately show ?thesis
    by (simp add: chain_links_eq)
qed

theorem init_assembles_chain_witness:
  "map_of (select_models False) ''yolov8s'' = Some ''resources/yolov8s.hef''
   \<and> path_exists pi_env (os_path_join (resources_dir pi_env) ''resources/yolov8s.hef'')
   \<and> all_made pi_env \<and> all_linked pi_env
   \<and> (\<exists>a. init pi_env fresh_world () () ''yolov8s'' False =
               (fresh_world\<lparr>gst_init_calls := 1\<rparr>, Inr a)
        \<and> pipeline_state a = GstNull
        \<and> length (pipeline_children a) = 10
        \<and> map (stage_of a) chain = map Some stage_factories
        \<and> pipeline_links a = chain_links)"
proof -
  from init_assembles_chain [OF yolov8s_registered pi_env_good(3) pi_env_good(1,2),
      of fresh_world "()" "()"]
  obtain a where "init pi_env fresh_world () () ''yolov8s'' False =
               (fresh_world\<lparr>gst_init_calls := 1\<rparr>, Inr a)"
    "pipeline_state a = GstNull" "length (pipeline_children a) = 10"
    "map (stage_of a) chain = map Some stage_factories"
    "pipeline_links a = chain_links"
    by (auto simp: fresh_world_def chain_links_eq)
  with yolov8s_registered pi_env_good show ?thesis by blast
qed

text \<open>
  Claim C4. Whatever the model name and the hardware variant, an object the constructor
  returns holds two queues, \<open>queue1\<close> and \<open>queue2\<close>, whose only properties are a cap of 10
  buffers and the time and byte caps set to 0.
\<close>

theorem queues_configured:
  assumes "init ev w cb ud model_name is_hailo8l = (w', Inr a)"
  shows "elems a Queue1 = Some \<lparr>factory = ''queue'', ename = ''queue1'', props = queue_props\<rparr>
       \<and> elems a Queue2 = Some \<lparr>factory = ''queue'', ename = ''queue2'', props = queue_props\<rparr>
       \<and> queue_props ''max-size-buffers'' = Some (PInt 10)
       \<and> queue_props ''max-size-time'' = Some (PInt 0)
       \<and> queue_props ''max-size-bytes'' = Some (PInt 0)
       \<and> dom queue_props = {''max-size-buffers'', ''max-size-time'', ''max-size-bytes''}"
proof -
  from init_elems [OF assms] obtain hef a1 where
    "create_elements ev (new_app cb ud hef) = Inr a1" "elems a = elems a1" by blast
  with create_elements_queues [of ev "new_app cb ud hef" a1] show ?thesis
    by (auto simp: queue_props_def)
qed

theorem queues_configured_witness:
  "\<exists>a. init pi_env fresh_world () () ''yolov8s'' False = (fresh_world\<lparr>gst_init_calls := 1\<rparr>, Inr a)
     \<and> property_of a Queue1 ''max-size-buffers'' = Some (PInt 10)
     \<and> property_of a Queue1 ''max-size-time'' = Some (PInt 0)
     \<and> property_of a Queue1 ''max-size-bytes'' = Some (PInt 0)
     \<and> property_of a Queue2 ''max-size-buffers'' = Some (PInt 10)
     \<and> property_of a Queue2 ''max-size-time'' = Some (PInt 0)
     \<and> property_of a Queue2 ''max-size-bytes'' = Some (PInt 0)"
proof -
  from init_assembles [OF yolov8s_registered pi_env_good(3) pi_env_good(1,2),
      of fresh_world "()" "()"]
  obtain a where a: "init pi_env fresh_world () () ''yolov8s'' False =
      (fresh_world\<lparr>gst_init_calls := 1\<rparr>, Inr a)"
    by (auto simp: fresh_world_def)
  from queues_configured [OF a] a show ?thesis
    by (auto simp: property_of_def)
qed

text \<open>
  Claim C5 does not hold of the code. With one stage missing at a time, taken along the
  chain, only the two accelerator stages give the error that names them. A missing
  source, caps filter, queue or sink is first used by \<^verbatim>\<open>set_property\<close>, which raises an
  \<open>AttributeError\<close> on \<open>None\<close>; a missing decoder, converter or scaler is found by
  \<^verbatim>\<open>verify_elements\<close> only after every other stage has been made, and the message it
  formats from the missing element reads \<^verbatim>\<open>Could not create None\<close>.
\<close>

theorem missing_stage_outcomes:
  "map missing_stage_outcome stage_factories =
     [Inl (none_has_no_attribute ''set_property''),
      Inl (RuntimeError ''Could not create None''),
      Inl (RuntimeError ''Could not create None''),
      Inl (RuntimeError ''Could not create None''),
      Inl (none_has_no_attribute ''set_property''),
      Inl (none_has_no_attribute ''set_property''),
      Inl (RuntimeError hailonet_missing),
      Inl (RuntimeError hailofilter_missing),
      Inl (none_has_no_attribute ''set_property''),
      Inl (none_has_no_attribute ''set_property'')]"
proof -
  have e: "missing_stage_outcome fn =
      seq [create_elements (without_stage fn pi_env), add_probe, connect_bus]
        (new_app () () ''/home/pi/hailo-rpi5-examples-main/resources/resources/yolov5m_wo_spp.hef'')"
    for fn
    unfolding missing_stage_outcome_def
    by (rule init_outcome_yolov5m) (simp_all add: without_stage_def pi_env_def)
  show ?thesis
    unfolding stage_factories_def list.map e
    by (simp add: without_stage_def pi_env_def create_elements_def block_defs step_defs
        new_app_def)
qed

text \<open>
  Claim C9 does not hold of the code. The registry entries already start with
  \<^verbatim>\<open>resources/\<close> and are joined to the resources directory, so for a module installed under
  \<^verbatim>\<open>/home/pi/hailo-rpi5-examples-main\<close> the path of \<open>yolov5m\<close> has the directory twice.
  That path is the one set on the inference element, with batch size 1.
\<close>

theorem yolov5m_hef_path:
  "map_sum id hailo_config (init_outcome pi_env ''yolov5m'' False) =
     Inr (''/home/pi/hailo-rpi5-examples-main/resources/resources/yolov5m_wo_spp.hef'',
          Some (PStr ''/home/pi/hailo-rpi5-examples-main/resources/resources/yolov5m_wo_spp.hef''),
          Some (PInt 1))"
  by (subst init_outcome_yolov5m)
     (simp_all add: pi_env_def create_elements_def block_defs step_defs new_app_def
        add_probe_def connect_bus_def hailo_config_def property_of_def)


section \<open>Properties of cleanup and of the run loop\<close>

lemma cleanup_eq:
  "cleanup s =
     (None, ((fst s)\<lparr>console := console (fst s) @ [cleaning_up]\<rparr>,
             (snd s)\<lparr>pipeline_state := GstNull, loop := map_option (\<lambda>_. False) (loop (snd s))\<rparr>))"
  by (cases "loop (snd s)")
     (auto simp: cleanup_def print_line_def set_state_null_def quit_if_running_def loop_quit_def)

lemma on_error_running:
  assumes "loop (snd s) = Some True"
  shows "on_error m d s =
     (None, ((fst s)\<lparr>console := console (fst s)
                @ [''Pipeline error: '' @ m, ''Debug info: '' @ d, cleaning_up]\<rparr>,
             (snd s)\<lparr>pipeline_state := GstNull, loop := Some False\<rparr>))"
  using assms by (simp add: on_error_def print_line_def cleanup_eq loop_quit_def)

lemma on_eos_running:
  assumes "loop (snd s) = Some True"
  shows "on_eos s =
     (None, ((fst s)\<lparr>console := console (fst s) @ [''End of stream reached'', cleaning_up]\<rparr>,
             (snd s)\<lparr>pipeline_state := GstNull, loop := Some False\<rparr>))"
  using assms by (simp add: on_eos_def print_line_def cleanup_eq loop_quit_def)

lemma dispatch_idle: "exit_event es = None \<Longrightarrow> dispatch es s = None"
  by (induction es rule: exit_event.induct) simp_all

lemma exit_event_not_idle: "exit_event es \<noteq> Some Idle"
  by (induction es rule: exit_event.induct) simp_all

lemma dispatch_exit:
  assumes "loop (snd s) = Some True" and "exit_event es = Some e"
  shows "dispatch es s =
     (case e of
        BusError m d \<Rightarrow> Some (None, snd (on_error m d s))
      | BusEos \<Rightarrow> Some (None, snd (on_eos s))
      | QuitRequest \<Rightarrow> Some (None, (fst s, (snd s)\<lparr>loop := Some False\<rparr>))
      | CleanupCall \<Rightarrow> Some (None, snd (cleanup s))
      | LoopRaises x r \<Rightarrow> Some (Some x, (fst s, (snd s)\<lparr>loop := Some r\<rparr>))
      | Idle \<Rightarrow> None)"
  using assms
  by (induction es rule: exit_event.induct)
     (auto simp: on_error_running on_eos_running cleanup_eq loop_quit_def)

text \<open>What \<^verbatim>\<open>self.loop.run()\<close> returns, by the event that ends the loop.\<close>

lemma loop_exit:
  assumes "exit_event es = Some e"
  shows "loop_run es s =
     (case e of
        BusError m d \<Rightarrow>
          Some (None,
            ((fst s)\<lparr>console := console (fst s)
                @ [''Pipeline error: '' @ m, ''Debug info: '' @ d, cleaning_up]\<rparr>,
             (snd s)\<lparr>pipeline_state := GstNull, loop := Some False\<rparr>))
      | BusEos \<Rightarrow>
          Some (None,
            ((fst s)\<lparr>console := console (fst s) @ [''End of stream reached'', cleaning_up]\<rparr>,
             (snd s)\<lparr>pipeline_state := GstNull, loop := Some False\<rparr>))
      | QuitRequest \<Rightarrow> Some (None, (fst s, (snd s)\<lparr>loop := Some False\<rparr>))
      | CleanupCall \<Rightarrow>
          Some (None,
            ((fst s)\<lparr>console := console (fst s) @ [cleaning_up]\<rparr>,
             (snd s)\<lparr>pipeline_state := GstNull, loop := Some False\<rparr>))
      | LoopRaises x r \<Rightarrow> Some (Some x, (fst s, (snd s)\<lparr>loop := Some r\<rparr>))
      | Idle \<Rightarrow> None)"
proof -
  let ?s0 = "(fst s, (snd s)\<lparr>loop := Some True\<rparr>)"
  have "dispatch es ?s0 =
     (case e of
        BusError m d \<Rightarrow> Some (None, snd (on_error m d ?s0))
      | BusEos \<Rightarrow> Some (None, snd (on_eos ?s0))
      | QuitRequest \<Rightarrow> Some (None, (fst ?s0, (snd ?s0)\<lparr>loop := Some False\<rparr>))
      | CleanupCall \<Rightarrow> Some (None, snd (cleanup ?s0))
      | LoopRaises x r \<Rightarrow> Some (Some x, (fst ?s0, (snd ?s0)\<lparr>loop := Some r\<rparr>))
      | Idle \<Rightarrow> None)"
    by (rule dispatch_exit) (simp_all add: assms)
  then show ?thesis
    by (cases e) (simp_all add: loop_run_def on_error_running on_eos_running cleanup_eq)
qed

text \<open>What \<^verbatim>\<open>run\<close> returns when a bus message ends the loop.\<close>

lemma run_bus_result:
  assumes "ret \<noteq> FAILURE" and "exit_event es = Some e" and "is_bus_event e"
  shows "run ret es s =
     Some (None,
       ((fst s)\<lparr>console := console (fst s)
           @ (case e of BusError m d \<Rightarrow> [''Pipeline error: '' @ m, ''Debug info: '' @ d]
              | _ \<Rightarrow> [''End of stream reached''])
           @ [cleaning_up, cleaning_up]\<rparr>,
        (snd s)\<lparr>pipeline_state := GstNull, loop := Some False\<rparr>))"
  using assms
    loop_exit [OF assms(2), of "(fst s, (snd s)\<lparr>pipeline_state := GstPlaying, loop := Some False\<rparr>)"]
  by (cases e) (simp_all add: run_def cleanup_eq)

lemma cleanups_append:
  "cleanups (w\<lparr>console := console w @ ls\<rparr>) = cleanups w + count_list ls cleaning_up"
  by (induction ls rule: rev_induct) (simp_all add: cleanups_def flip: append_assoc)

text \<open>
  Claim C6, as stated, fails: when end of stream ends the loop, \<open>cleanup\<close> runs twice, once
  in the handler and once in the \<^verbatim>\<open>finally\<close> clause of \<^verbatim>\<open>run\<close>. In a process that has
  printed nothing before, the console shows its line two times.
\<close>

theorem run_eos_cleans_twice:
  "map_option (cleanups \<circ> fst \<circ> snd) (Option.bind pi_session (run SUCCESS [BusEos])) = Some 2"
proof -
  from pi_session_assembled obtain a where
    a: "pi_session = Some (fresh_world\<lparr>gst_init_calls := 1\<rparr>, a)" by blast
  have "exit_event [BusEos] = Some BusEos" by simp
  from run_bus_result [OF _ this, of SUCCESS "(fresh_world\<lparr>gst_init_calls := 1\<rparr>, a)"]
  show ?thesis
    by (simp add: a cleanups_def fresh_world_def cleaning_up_def)
qed

text \<open>
  Claim C6, amended. Once the pipeline plays, \<^verbatim>\<open>run\<close> returns exactly when some event ends
  the loop, and it returns what the loop returned (nothing, or the exception). On every
  such exit \<open>cleanup\<close> has run and the object is left with its pipeline in the null state
  and its loop stopped. When the loop ends by a call of \<^verbatim>\<open>quit()\<close> from outside or by an
  exception, \<open>cleanup\<close> has not run inside the loop and runs exactly once, in the
  \<^verbatim>\<open>finally\<close> clause. When the loop ends by a bus error, by end of stream or by a call of
  \<open>cleanup\<close> from outside, \<open>cleanup\<close> has run once inside the loop and runs a second time
  in the \<^verbatim>\<open>finally\<close> clause: exactly twice; the second run leaves the object as the first
  left it and adds only its line to the console.
\<close>

theorem run_cleanup_count:
  assumes "ret \<noteq> FAILURE"
  shows "case exit_event es of
           None \<Rightarrow> run ret es s = None
         | Some e \<Rightarrow>
             (\<exists>r s1 s'.
                  loop_run es (fst s, (snd s)\<lparr>pipeline_state := GstPlaying, loop := Some False\<rparr>)
                    = Some (r, s1)
                \<and> run ret es s = Some (r, s')
                \<and> cleanups (fst s1) = cleanups (fst s) + (if calls_cleanup e then 1 else 0)
                \<and> cleanups (fst s') = cleanups (fst s) + (if calls_cleanup e then 2 else 1)
                \<and> snd s' = (snd s)\<lparr>pipeline_state := GstNull, loop := Some False\<rparr>
                \<and> (calls_cleanup e \<longrightarrow>
                     r = None \<and> snd s' = snd s1
                     \<and> fst s' = (fst s1)\<lparr>console := console (fst s1) @ [cleaning_up]\<rparr>))"
proof (cases "exit_event es")
  case None
  with assms show ?thesis
    by (simp add: run_def loop_run_def dispatch_idle)
next
  case (Some e)
  let ?s0 = "(fst s, (snd s)\<lparr>pipeline_state := GstPlaying, loop := Some False\<rparr>)"
  from Some exit_event_not_idle [of es] have "e \<noteq> Idle" by auto
  with loop_exit [OF Some, of ?s0] assms Some show ?thesis
    by (cases e)
       (simp_all add: run_def cleanup_eq print_line_def cleanups_append cleanups_def
          cleaning_up_def)
qed

theorem run_cleanup_count_witness:
  "SUCCESS \<noteq> FAILURE
   \<and> (\<exists>w a r s'. pi_session = Some (w, a)
        \<and> run SUCCESS [Idle, QuitRequest] (w, a) = Some (r, s')
        \<and> cleanups (fst s') = cleanups w + 1
        \<and> pipeline_state (snd s') = GstNull)
   \<and> (\<exists>w a r s'. pi_session = Some (w, a)
        \<and> run SUCCESS [Idle, BusError ''timeout'' ''souphttpsrc''] (w, a) = Some (r, s')
        \<and> cleanups (fst s') = cleanups w + 2
        \<and> pipeline_state (snd s') = GstNull)
   \<and> (\<exists>w a r s'. pi_session = Some (w, a)
        \<and> run SUCCESS [CleanupCall] (w, a) = Some (r, s')
        \<and> cleanups (fst s') = cleanups w + 2
        \<and> pipeline_state (snd s') = GstNull)
   \<and> (\<exists>w a r s'. pi_session = Some (w, a)
        \<and> run SUCCESS [LoopRaises (BaseException ''KeyboardInterrupt'') False] (w, a) = Some (r, s')
        \<and> cleanups (fst s') = cleanups w + 1
        \<and> pipeline_state (snd s') = GstNull)"
proof -
  from pi_session_assembled obtain w a where s: "pi_session = Some (w, a)" by blast
  have h: "SUCCESS \<noteq> FAILURE" by simp
  from run_cleanup_count [OF h, of "[Idle, QuitRequest]" "(w, a)"]
  obtain r1 s1 where q: "run SUCCESS [Idle, QuitRequest] (w, a) = Some (r1, s1)"
    "cleanups (fst s1) = cleanups w + 1" "pipeline_state (snd s1) = GstNull"
    by auto
  from run_cleanup_count [OF h, of "[Idle, BusError ''timeout'' ''souphttpsrc'']" "(w, a)"]
  obtain r2 s2 where
    b: "run SUCCESS [Idle, BusError ''timeout'' ''souphttpsrc''] (w, a) = Some (r2, s2)"
    "cleanups (fst s2) = cleanups w + 2" "pipeline_state (snd s2) = GstNull"
    by auto
  from run_cleanup_count [OF h, of "[CleanupCall]" "(w, a)"]
  obtain r3 s3 where
    c: "run SUCCESS [CleanupCall] (w, a) = Some (r3, s3)"
    "cleanups (fst s3) = cleanups w + 2" "pipeline_state (snd s3) = GstNull"
    by auto
  from run_cleanup_count [OF h, of "[LoopRaises (BaseException ''KeyboardInterrupt'') False]" "(w, a)"]
  obtain r4 s4 where
    k: "run SUCCESS [LoopRaises (BaseException ''KeyboardInterrupt'') False] (w, a) = Some (r4, s4)"
    "cleanups (fst s4) = cleanups w + 1" "pipeline_state (snd s4) = GstNull"
    by auto
  from h s q b c k show ?thesis by blast
qed

text \<open>
  Claim C7. \<open>cleanup\<close> never raises, in any state of the object: it puts the pipeline in
  the null state, stops the loop when the object has one (a loop that is not running
  stays stopped, an object without a loop stays without one) and changes nothing else of
  the object. Calling it again never raises either and leaves the object as the first
  call left it; each call prints its line on the console.
\<close>

theorem cleanup_idempotent:
  "fst (cleanup s) = None
   \<and> snd (snd (cleanup s)) =
       (snd s)\<lparr>pipeline_state := GstNull,
               loop := (case loop (snd s) of None \<Rightarrow> None | Some r \<Rightarrow> Some False)\<rparr>
   \<and> fst (snd (cleanup s)) = (fst s)\<lparr>console := console (fst s) @ [cleaning_up]\<rparr>
   \<and> fst (cleanup (snd (cleanup s))) = None
   \<and> snd (snd (cleanup (snd (cleanup s)))) = snd (snd (cleanup s))"
  by (cases "loop (snd s)") (simp_all add: cleanup_eq)




end
